theory Spec2Isabelle
  imports Main "HOL-Library.Multiset"
begin

section \<open>Errors and call outcomes\<close>

text \<open>
  Go functions return an \<open>error\<close> value beside their result; \<open>nil\<close> is \<open>None\<close>.
  \<open>io_EOF\<close> is \<open>io.EOF\<close>, \<open>errInvalidEndpointProvider\<close> is the package variable of
  that name, \<open>ErrInvalidCSIEndpoint\<close> the one used by \<open>ParseProtoAddr\<close>; \<open>Err msg\<close> stands
  for every other error value (\<open>fmt.Errorf\<close>, errors of \<open>plugin.Open\<close>, of gRPC, ...).
\<close>

datatype error = io_EOF | errInvalidEndpointProvider | ErrInvalidCSIEndpoint | Err string

text \<open>
  A call on a channel either returns, blocks (until another goroutine acts), or panics.
\<close>

datatype 'a outcome = Returns 'a | Blocks | Panics string

section \<open>PipeConn\<close>

text \<open>
  \<open>net.Pipe()\<close> creates the two ends of a synchronous in-memory full-duplex connection.
  An end is named by the number of its pipe and its side; \<open>r, w := net.Pipe()\<close> gives the
  \<open>ReadSide\<close> and the \<open>WriteSide\<close> of a pipe no earlier call has returned.
\<close>

datatype pipe_side = ReadSide | WriteSide

datatype conn = PipeEnd nat pipe_side

fun pipe_of :: "conn \<Rightarrow> nat" where
  "pipe_of (PipeEnd n s) = n"

fun peer :: "conn \<Rightarrow> conn" where
  "peer (PipeEnd n ReadSide) = PipeEnd n WriteSide"
| "peer (PipeEnd n WriteSide) = PipeEnd n ReadSide"

definition net_Pipe :: "nat \<Rightarrow> (conn \<times> conn) \<times> nat" where
  "net_Pipe n = ((PipeEnd n ReadSide, PipeEnd n WriteSide), Suc n)"

text \<open>
  What is in flight on the pipes: \<open>wire c\<close> are the bytes written towards the end \<open>c\<close>
  and not yet read there. \<open>Write\<close> on an end delivers to its peer, \<open>Read\<close> on an
  end takes what was delivered to it.
\<close>

type_synonym wire = "conn \<Rightarrow> string"

definition conn_Write :: "conn \<Rightarrow> string \<Rightarrow> wire \<Rightarrow> wire" where
  "conn_Write c bs wr = wr (peer c := wr (peer c) @ bs)"

definition conn_Read :: "conn \<Rightarrow> wire \<Rightarrow> string \<times> wire" where
  "conn_Read c wr = (wr c, wr (c := []))"

text \<open>
  The unbuffered channel \<open>chcn chan net.Conn\<close>: whether it was closed, and the values of
  the goroutines whose send \<open>p.chcn <- r\<close> has not been received yet.
\<close>

record chan =
  ch_closed :: bool
  ch_senders :: "conn list"

record pipeAddr =
  pa_name :: string

record pipeConn =
  pc_addr :: pipeAddr
  pc_chcn :: chan

text \<open>
  The process around one \<open>*pipeConn\<close>: the object itself, the number of pipes created
  so far, and the number of goroutines that died with "send on closed channel".
\<close>

record heap =
  bridge :: pipeConn
  pipes :: nat
  send_panics :: nat

definition newPipeConn :: "string \<Rightarrow> pipeConn" where
  "newPipeConn nm =
     \<lparr>pc_addr = \<lparr>pa_name = nm\<rparr>, pc_chcn = \<lparr>ch_closed = False, ch_senders = []\<rparr>\<rparr>"

definition is_closed :: "heap \<Rightarrow> bool" where
  "is_closed h = ch_closed (pc_chcn (bridge h))"

definition senders :: "heap \<Rightarrow> conn list" where
  "senders h = ch_senders (pc_chcn (bridge h))"

definition set_senders :: "conn list \<Rightarrow> heap \<Rightarrow> heap" where
  "set_senders cs h =
     h\<lparr>bridge := (bridge h)\<lparr>pc_chcn := (pc_chcn (bridge h))\<lparr>ch_senders := cs\<rparr>\<rparr>\<rparr>"

text \<open>
  \<open>go func() { p.chcn <- r }()\<close>: on an open channel the goroutine waits with its value
  until an \<open>Accept\<close> receives it; on a closed channel the send panics.
\<close>

definition go_send :: "conn \<Rightarrow> heap \<Rightarrow> heap" where
  "go_send r h =
     (if is_closed h then h\<lparr>send_panics := Suc (send_panics h)\<rparr>
      else set_senders (senders h @ [r]) h)"

definition Dial :: "string \<Rightarrow> int \<Rightarrow> heap \<Rightarrow> (conn option \<times> error option) \<times> heap" where
  "Dial raddr timeout h =
     (case net_Pipe (pipes h) of
        ((r, w), n) \<Rightarrow> ((Some w, None), go_send r (h\<lparr>pipes := n\<rparr>)))"

text \<open>
  \<open>for c := range p.chcn { return c, nil }; return nil, nil\<close>. A receive on a closed
  channel ends the loop at once; on an open channel it takes the value of one of the
  waiting senders (which one is the scheduler's choice \<open>pick\<close>), and blocks when there
  is none.
\<close>

definition Accept :: "nat \<Rightarrow> heap \<Rightarrow> (conn option \<times> error option) outcome \<times> heap" where
  "Accept pick h =
     (if is_closed h then (Returns (None, None), h)
      else if senders h = [] then (Blocks, h)
      else let i = pick mod length (senders h) in
        (Returns (Some (senders h ! i), None),
         set_senders (take i (senders h) @ drop (Suc i) (senders h)) h))"

text \<open>
  \<open>close(p.chcn); return nil\<close>. Closing a closed channel panics; closing a channel
  wakes every waiting sender with a panic.
\<close>

definition Close :: "heap \<Rightarrow> error option outcome \<times> heap" where
  "Close h =
     (if is_closed h then (Panics ''close of closed channel'', h)
      else (Returns None,
            h\<lparr>bridge := (bridge h)\<lparr>pc_chcn := \<lparr>ch_closed = True, ch_senders = []\<rparr>\<rparr>,
              send_panics := send_panics h + length (senders h)\<rparr>))"

definition new_heap :: "string \<Rightarrow> heap" where
  "new_heap nm = \<lparr>bridge = newPipeConn nm, pipes = 0, send_panics = 0\<rparr>"

text \<open>
  Sequences of calls: \<open>dials\<close> performs one \<open>Dial\<close> after another and collects what
  the calls return; \<open>accepts\<close> does the same for \<open>Accept\<close>, one scheduler choice each.
  \<open>bridge_op\<close> and \<open>run_ops\<close> are any later use of the bridge by dialers and
  acceptors.
\<close>

fun dials :: "(string \<times> int) list \<Rightarrow> heap \<Rightarrow> (conn option \<times> error option) list \<times> heap" where
  "dials [] h = ([], h)"
| "dials ((raddr, timeout) # as) h =
     (case Dial raddr timeout h of
        (res, h1) \<Rightarrow> (case dials as h1 of (rs, h2) \<Rightarrow> (res # rs, h2)))"

fun accepts :: "nat list \<Rightarrow> heap \<Rightarrow> (conn option \<times> error option) outcome list \<times> heap" where
  "accepts [] h = ([], h)"
| "accepts (pick # ps) h =
     (case Accept pick h of
        (res, h1) \<Rightarrow> (case accepts ps h1 of (rs, h2) \<Rightarrow> (res # rs, h2)))"

datatype bridge_op = DoDial string int | DoAccept nat

fun run_op :: "bridge_op \<Rightarrow> heap \<Rightarrow> heap" where
  "run_op (DoDial raddr timeout) h = snd (Dial raddr timeout h)"
| "run_op (DoAccept pick) h = snd (Accept pick h)"

fun run_ops :: "bridge_op list \<Rightarrow> heap \<Rightarrow> heap" where
  "run_ops [] h = h"
| "run_ops (x # xs) h = run_ops xs (run_op x h)"

section \<open>The package: plug-in registry and \<open>Init\<close>\<close>

text \<open>
  A registered constructor is a \<open>func() interface{}\<close>. What it returns either satisfies
  the interface \<open>Endpoint\<close>, or is some other value, of which only its type (as \<open>%T\<close>
  prints it) matters.
\<close>

datatype 'e object = IsEndpoint 'e | NotEndpoint string

type_synonym 'e ctor = "unit \<Rightarrow> 'e object"

text \<open>
  What \<open>p.Lookup("Endpoints")\<close> can find: a non-nil \<open>*map[string]func() interface{}\<close>
  (its entries, in the order the \<open>range\<close> statement visits them), a nil pointer of
  that type, or a symbol of another type.
\<close>

datatype 'e symbol = EndpointsMap "(string \<times> 'e ctor) list" | NilEndpoints | OtherSymbol string

record 'e plugin =
  Lookup :: "string \<Rightarrow> error + 'e symbol"

text \<open>
  What the package reads from its process: the environment, the first record that
  \<open>encoding/csv\<close> reads from a string (with its error), \<open>plugin.Open\<close>, and the part of
  \<open>strings.EqualFold\<close> that compares beyond ASCII.
\<close>

record 'e os =
  os_Getenv :: "string \<Rightarrow> string"
  csv_Read :: "string \<Rightarrow> string list \<times> error option"
  plugin_Open :: "string \<Rightarrow> error + 'e plugin"
  unicode_fold :: "string \<Rightarrow> string \<Rightarrow> bool"

text \<open>
  The package variables: \<open>initOnce\<close> (whether \<open>Do\<close> has run its function) and the map
  \<open>endpointCtors\<close>.
\<close>

record 'e package =
  initOnce :: bool
  endpointCtors :: "string \<rightharpoonup> 'e ctor"

definition new_package :: "'e package" where
  "new_package = \<lparr>initOnce = False, endpointCtors = Map.empty\<rparr>"

text \<open>\<open>for k, v := range *eps { endpointCtors[k] = v }\<close>\<close>

fun record_endpoints :: "(string \<times> 'e ctor) list \<Rightarrow> (string \<rightharpoonup> 'e ctor) \<Rightarrow> (string \<rightharpoonup> 'e ctor)" where
  "record_endpoints [] ctors = ctors"
| "record_endpoints ((k, v) # eps) ctors = record_endpoints eps (ctors(k \<mapsto> v))"

text \<open>The loop \<open>for _, so := range sos\<close> of \<open>loadSharedObjects\<close>.\<close>

fun load_each :: "'e os \<Rightarrow> string list \<Rightarrow> (string \<rightharpoonup> 'e ctor) \<Rightarrow> error option \<times> (string \<rightharpoonup> 'e ctor)" where
  "load_each env [] ctors = (None, ctors)"
| "load_each env (so # sos) ctors =
     (case plugin_Open env so of
        Inl err \<Rightarrow> (Some err, ctors)
      | Inr p \<Rightarrow>
          (case Lookup p ''Endpoints'' of
             Inl err \<Rightarrow> (Some err, ctors)
           | Inr (OtherSymbol ty) \<Rightarrow> (Some (Err (''error: invalid endpoints field: '' @ ty)), ctors)
           | Inr NilEndpoints \<Rightarrow> (Some (Err ''error: nil endpoints''), ctors)
           | Inr (EndpointsMap eps) \<Rightarrow> load_each env sos (record_endpoints eps ctors)))"

definition loadSharedObjects :: "'e os \<Rightarrow> (string \<rightharpoonup> 'e ctor) \<Rightarrow> error option \<times> (string \<rightharpoonup> 'e ctor)" where
  "loadSharedObjects env ctors =
     (case csv_Read env (os_Getenv env ''CSI_PLUGINS'') of
        (sos, err) \<Rightarrow>
          if err \<noteq> None \<and> err \<noteq> Some io_EOF then (err, ctors)
          else if length sos = 0 then (None, ctors)
          else load_each env sos ctors)"

text \<open>
  \<open>var err error; initOnce.Do(func() { err = loadSharedObjects(ctx) }); return err\<close>.
  \<open>Do\<close> calls the function only when no earlier \<open>Do\<close> has; otherwise \<open>err\<close> keeps
  its zero value.
\<close>

definition Init :: "'e os \<Rightarrow> 'e package \<Rightarrow> error option \<times> 'e package" where
  "Init env g =
     (if initOnce g then (None, g)
      else case loadSharedObjects env (endpointCtors g) of
        (err, ctors) \<Rightarrow> (err, g\<lparr>initOnce := True, endpointCtors := ctors\<rparr>))"

section \<open>\<open>New\<close>: looking a provider up\<close>



record 'e endpoint =
  ep_name :: string
  ep_endp :: 'e
  ep_conn :: pipeConn







section \<open>The endpoint facade\<close>

text \<open>
  \<open>context.Context\<close> and \<open>*grpc.ClientConn\<close> are opaque values. The options of
  \<open>grpc.DialContext\<close> that \<open>dial\<close> passes are \<open>grpc.WithInsecure()\<close> and
  \<open>grpc.WithDialer(e.conn.Dial)\<close>, the dialer of the endpoint's own \<open>pipeConn\<close>.
\<close>

type_synonym Context = nat

type_synonym clientConn = nat

datatype dial_option = WithInsecure | WithDialer pipeConn

text \<open>
  \<open>csi.NewControllerClient(c)\<close>, \<open>csi.NewIdentityClient(c)\<close> and \<open>csi.NewNodeClient(c)\<close>
  wrap a connection in the client of one service; \<open>rpc\<close> names the methods of the
  three clients.
\<close>

datatype client = ControllerClient clientConn | IdentityClient clientConn | NodeClient clientConn

datatype rpc =
    CreateVolume | DeleteVolume | ControllerPublishVolume | ControllerUnpublishVolume
  | ValidateVolumeCapabilities | ListVolumes | GetCapacity | ControllerGetCapabilities
  | GetSupportedVersions | GetPluginInfo
  | NodePublishVolume | NodeUnpublishVolume | GetNodeID | ProbeNode | NodeGetCapabilities

text \<open>
  The gRPC library, acting on the rest of the process \<open>'w\<close>: \<open>DialContext g ctx target
  opts\<close> is \<open>grpc.DialContext\<close>, and \<open>Invoke g c m ctx req\<close> is the call \<open>c.m(ctx, req)\<close>
  of the method \<open>m\<close> of the client \<open>c\<close>.
\<close>

record ('w, 'req, 'resp) grpc =
  DialContext :: "Context \<Rightarrow> string \<Rightarrow> dial_option list \<Rightarrow> 'w \<Rightarrow> (error + clientConn) \<times> 'w"
  Invoke :: "client \<Rightarrow> rpc \<Rightarrow> Context \<Rightarrow> 'req \<Rightarrow> 'w \<Rightarrow> ('resp option \<times> error option) \<times> 'w"

definition dial :: "('w, 'req, 'resp) grpc \<Rightarrow> 'e endpoint \<Rightarrow> Context \<Rightarrow> 'w \<Rightarrow> (error + clientConn) \<times> 'w" where
  "dial g e ctx w = DialContext g ctx (ep_name e) [WithInsecure, WithDialer (ep_conn e)] w"

definition dialController :: "('w, 'req, 'resp) grpc \<Rightarrow> 'e endpoint \<Rightarrow> Context \<Rightarrow> 'w \<Rightarrow> (error + client) \<times> 'w" where
  "dialController g e ctx w =
     (case dial g e ctx w of
        (Inl err, w1) \<Rightarrow> (Inl err, w1)
      | (Inr c, w1) \<Rightarrow> (Inr (ControllerClient c), w1))"

definition dialIdentity :: "('w, 'req, 'resp) grpc \<Rightarrow> 'e endpoint \<Rightarrow> Context \<Rightarrow> 'w \<Rightarrow> (error + client) \<times> 'w" where
  "dialIdentity g e ctx w =
     (case dial g e ctx w of
        (Inl err, w1) \<Rightarrow> (Inl err, w1)
      | (Inr c, w1) \<Rightarrow> (Inr (IdentityClient c), w1))"

definition dialNode :: "('w, 'req, 'resp) grpc \<Rightarrow> 'e endpoint \<Rightarrow> Context \<Rightarrow> 'w \<Rightarrow> (error + client) \<times> 'w" where
  "dialNode g e ctx w =
     (case dial g e ctx w of
        (Inl err, w1) \<Rightarrow> (Inl err, w1)
      | (Inr c, w1) \<Rightarrow> (Inr (NodeClient c), w1))"

text \<open>
  The fifteen methods \<open>func (e *endpoint) M(ctx, req)\<close>, one equation each:
  \<open>endpoint_rpc g e M ctx req\<close> is the method \<open>M\<close> of the facade.
\<close>

fun endpoint_rpc :: "('w, 'req, 'resp) grpc \<Rightarrow> 'e endpoint \<Rightarrow> rpc \<Rightarrow> Context \<Rightarrow> 'req \<Rightarrow> 'w
    \<Rightarrow> ('resp option \<times> error option) \<times> 'w" where
  "endpoint_rpc g e CreateVolume ctx req w =
     (case dialController g e ctx w of
        (Inl err, w1) \<Rightarrow> ((None, Some err), w1)
      | (Inr c, w1) \<Rightarrow> Invoke g c CreateVolume ctx req w1)"
| "endpoint_rpc g e DeleteVolume ctx req w =
     (case dialController g e ctx w of
        (Inl err, w1) \<Rightarrow> ((None, Some err), w1)
      | (Inr c, w1) \<Rightarrow> Invoke g c DeleteVolume ctx req w1)"
| "endpoint_rpc g e ControllerPublishVolume ctx req w =
     (case dialController g e ctx w of
        (Inl err, w1) \<Rightarrow> ((None, Some err), w1)
      | (Inr c, w1) \<Rightarrow> Invoke g c ControllerPublishVolume ctx req w1)"
| "endpoint_rpc g e ControllerUnpublishVolume ctx req w =
     (case dialController g e ctx w of
        (Inl err, w1) \<Rightarrow> ((None, Some err), w1)
      | (Inr c, w1) \<Rightarrow> Invoke g c ControllerUnpublishVolume ctx req w1)"
| "endpoint_rpc g e ValidateVolumeCapabilities ctx req w =
     (case dialController g e ctx w of
        (Inl err, w1) \<Rightarrow> ((None, Some err), w1)
      | (Inr c, w1) \<Rightarrow> Invoke g c ValidateVolumeCapabilities ctx req w1)"
| "endpoint_rpc g e ListVolumes ctx req w =
     (case dialController g e ctx w of
        (Inl err, w1) \<Rightarrow> ((None, Some err), w1)
      | (Inr c, w1) \<Rightarrow> Invoke g c ListVolumes ctx req w1)"
| "endpoint_rpc g e GetCapacity ctx req w =
     (case dialController g e ctx w of
        (Inl err, w1) \<Rightarrow> ((None, Some err), w1)
      | (Inr c, w1) \<Rightarrow> Invoke g c GetCapacity ctx req w1)"
| "endpoint_rpc g e ControllerGetCapabilities ctx req w =
     (case dialController g e ctx w of
        (Inl err, w1) \<Rightarrow> ((None, Some err), w1)
      | (Inr c, w1) \<Rightarrow> Invoke g c ControllerGetCapabilities ctx req w1)"
| "endpoint_rpc g e GetSupportedVersions ctx req w =
     (case dialIdentity g e ctx w of
        (Inl err, w1) \<Rightarrow> ((None, Some err), w1)
      | (Inr c, w1) \<Rightarrow> Invoke g c GetSupportedVersions ctx req w1)"
| "endpoint_rpc g e GetPluginInfo ctx req w =
     (case dialIdentity g e ctx w of
        (Inl err, w1) \<Rightarrow> ((None, Some err), w1)
      | (Inr c, w1) \<Rightarrow> Invoke g c GetPluginInfo ctx req w1)"
| "endpoint_rpc g e NodePublishVolume ctx req w =
     (case dialNode g e ctx w of
        (Inl err, w1) \<Rightarrow> ((None, Some err), w1)
      | (Inr c, w1) \<Rightarrow> Invoke g c NodePublishVolume ctx req w1)"
| "endpoint_rpc g e NodeUnpublishVolume ctx req w =
     (case dialNode g e ctx w of
        (Inl err, w1) \<Rightarrow> ((None, Some err), w1)
      | (Inr c, w1) \<Rightarrow> Invoke g c NodeUnpublishVolume ctx req w1)"
| "endpoint_rpc g e GetNodeID ctx req w =
     (case dialNode g e ctx w of
        (Inl err, w1) \<Rightarrow> ((None, Some err), w1)
      | (Inr c, w1) \<Rightarrow> Invoke g c GetNodeID ctx req w1)"
| "endpoint_rpc g e ProbeNode ctx req w =
     (case dialNode g e ctx w of
        (Inl err, w1) \<Rightarrow> ((None, Some err), w1)
      | (Inr c, w1) \<Rightarrow> Invoke g c ProbeNode ctx req w1)"
| "endpoint_rpc g e NodeGetCapabilities ctx req w =
     (case dialNode g e ctx w of
        (Inl err, w1) \<Rightarrow> ((None, Some err), w1)
      | (Inr c, w1) \<Rightarrow> Invoke g c NodeGetCapabilities ctx req w1)"

text \<open>
  The service group that owns each method, as the specification lists them, and the
  client of a group on a connection.
\<close>

datatype service_group = ControllerGroup | IdentityGroup | NodeGroup

definition owning_group :: "rpc \<Rightarrow> service_group" where
  "owning_group m =
     (if m \<in> {CreateVolume, DeleteVolume, ControllerPublishVolume, ControllerUnpublishVolume,
               ValidateVolumeCapabilities, ListVolumes, GetCapacity, ControllerGetCapabilities}
      then ControllerGroup
      else if m \<in> {GetSupportedVersions, GetPluginInfo} then IdentityGroup
      else NodeGroup)"

fun client_of :: "service_group \<Rightarrow> clientConn \<Rightarrow> client" where
  "client_of ControllerGroup c = ControllerClient c"
| "client_of IdentityGroup c = IdentityClient c"
| "client_of NodeGroup c = NodeClient c"

text \<open>
  The plug-in's \<open>Endpoint\<close>: its three methods act on the process, which holds the
  plug-in's own state and the bridge of the facade. \<open>Serve\<close> is given a listener.
\<close>

record 'p world =
  plugin_state :: 'p
  net :: heap

datatype listener = NoListener | PipeListener pipeConn | NetListener string

record 'p Endpoint =
  endp_Init :: "Context \<Rightarrow> 'p world \<Rightarrow> error option \<times> 'p world"
  endp_Serve :: "Context \<Rightarrow> listener \<Rightarrow> 'p world \<Rightarrow> error option \<times> 'p world"
  endp_Shutdown :: "Context \<Rightarrow> 'p world \<Rightarrow> error option \<times> 'p world"

definition endpoint_Init :: "'p Endpoint endpoint \<Rightarrow> Context \<Rightarrow> 'p world \<Rightarrow> error option \<times> 'p world" where
  "endpoint_Init e ctx w = endp_Init (ep_endp e) ctx w"

definition endpoint_Serve :: "'p Endpoint endpoint \<Rightarrow> Context \<Rightarrow> listener \<Rightarrow> 'p world
    \<Rightarrow> error option \<times> 'p world" where
  "endpoint_Serve e ctx li w = endp_Serve (ep_endp e) ctx (PipeListener (ep_conn e)) w"

text \<open>\<open>e.endp.Shutdown(ctx); e.conn.Close(); return nil\<close>\<close>

definition endpoint_Shutdown :: "'p Endpoint endpoint \<Rightarrow> Context \<Rightarrow> 'p world
    \<Rightarrow> error option outcome \<times> 'p world" where
  "endpoint_Shutdown e ctx w =
     (case endp_Shutdown (ep_endp e) ctx w of
        (err, w1) \<Rightarrow>
          (case Close (net w1) of
             (Returns r, h) \<Rightarrow> (Returns None, w1\<lparr>net := h\<rparr>)
           | (Blocks, h) \<Rightarrow> (Blocks, w1\<lparr>net := h\<rparr>)
           | (Panics msg, h) \<Rightarrow> (Panics msg, w1\<lparr>net := h\<rparr>)))"

section \<open>Example processes\<close>

text \<open>
  A reader for variables without quotes and line breaks: no record at the end of input,
  otherwise the fields between the commas.
\<close>

fun comma_fields :: "string \<Rightarrow> string list" where
  "comma_fields [] = [[]]"
| "comma_fields (c # cs) =
     (if c = CHR '','' then [] # comma_fields cs
      else case comma_fields cs of f # fs \<Rightarrow> (c # f) # fs | [] \<Rightarrow> [[c]])"

definition plain_csv_Read :: "string \<Rightarrow> string list \<times> error option" where
  "plain_csv_Read s = (if s = [] then ([], Some io_EOF) else (comma_fields s, None))"

text \<open>A process with \<open>CSI_PLUGINS\<close> unset.\<close>

definition unset_env :: "nat os" where
  "unset_env =
     \<lparr>os_Getenv = (\<lambda>v. []), csv_Read = plain_csv_Read,
      plugin_Open = (\<lambda>path. Inl (Err (''plugin.Open: '' @ path))), unicode_fold = (=)\<rparr>"

text \<open>A process with \<open>CSI_PLUGINS=/missing.so\<close>, a file that cannot be opened.\<close>

definition missing_env :: "nat os" where
  "missing_env =
     \<lparr>os_Getenv = (\<lambda>v. if v = ''CSI_PLUGINS'' then ''/missing.so'' else []),
      csv_Read = plain_csv_Read,
      plugin_Open = (\<lambda>path. Inl (Err (''plugin.Open: '' @ path))), unicode_fold = (=)\<rparr>"



text \<open>
  A gRPC library whose dial fails, and one whose dial gives connection 7 and whose
  remote methods answer with the request they got; the process counts the library's
  calls.
\<close>

definition failing_grpc :: "(nat, string, string) grpc" where
  "failing_grpc =
     \<lparr>DialContext = (\<lambda>ctx target opts w. (Inl (Err ''dial failed''), Suc w)),
      Invoke = (\<lambda>c m ctx req w. ((Some req, None), Suc w))\<rparr>"

definition echo_grpc :: "(nat, string, string) grpc" where
  "echo_grpc =
     \<lparr>DialContext = (\<lambda>ctx target opts w. (Inr 7, Suc w)),
      Invoke = (\<lambda>c m ctx req w. ((Some req, None), Suc w))\<rparr>"

text \<open>A plug-in whose \<open>Shutdown\<close> fails, behind the facade for "mock".\<close>

definition failing_endp :: "unit Endpoint" where
  "failing_endp =
     \<lparr>endp_Init = (\<lambda>ctx w. (None, w)),
      endp_Serve = (\<lambda>ctx li w. (None, w)),
      endp_Shutdown = (\<lambda>ctx w. (Some (Err ''shutdown failed''), w))\<rparr>"

definition failing_facade :: "unit Endpoint endpoint" where
  "failing_facade = \<lparr>ep_name = ''mock'', ep_endp = failing_endp, ep_conn = newPipeConn ''mock''\<rparr>"

definition mock_world :: "unit world" where
  "mock_world = \<lparr>plugin_state = (), net = new_heap ''mock''\<rparr>"

section \<open>Properties of PipeConn\<close>

lemma is_closed_set_senders [simp]: "is_closed (set_senders cs h) = is_closed h"
  by (simp add: is_closed_def set_senders_def)

lemma senders_set_senders [simp]: "senders (set_senders cs h) = cs"
  by (simp add: senders_def set_senders_def)

lemma pipes_set_senders [simp]: "pipes (set_senders cs h) = pipes h"
  by (simp add: set_senders_def)

lemma send_panics_set_senders [simp]: "send_panics (set_senders cs h) = send_panics h"
  by (simp add: set_senders_def)

lemma is_closed_pipes_update [simp]: "is_closed (h\<lparr>pipes := n\<rparr>) = is_closed h"
  by (simp add: is_closed_def)

lemma senders_pipes_update [simp]: "senders (h\<lparr>pipes := n\<rparr>) = senders h"
  by (simp add: senders_def)

lemma Dial_open:
  "\<not> is_closed h \<Longrightarrow>
     Dial raddr timeout h =
       ((Some (PipeEnd (pipes h) WriteSide), None),
        set_senders (senders h @ [PipeEnd (pipes h) ReadSide]) (h\<lparr>pipes := Suc (pipes h)\<rparr>))"
  by (simp add: Dial_def net_Pipe_def go_send_def)

lemma Dial_closed:
  "is_closed h \<Longrightarrow>
     Dial raddr timeout h =
       ((Some (PipeEnd (pipes h) WriteSide), None),
        h\<lparr>pipes := Suc (pipes h), send_panics := Suc (send_panics h)\<rparr>)"
  by (simp add: Dial_def net_Pipe_def go_send_def)



lemma is_closed_send_panics_update [simp]: "is_closed (h\<lparr>send_panics := n\<rparr>) = is_closed h"
  by (simp add: is_closed_def)

lemma is_closed_Dial [simp]: "is_closed (snd (Dial raddr timeout h)) = is_closed h"
  by (cases "is_closed h") (simp_all add: Dial_open Dial_closed)

lemma is_closed_Accept [simp]: "is_closed (snd (Accept pick h)) = is_closed h"
  by (simp add: Accept_def Let_def)

lemma is_closed_run_ops [simp]: "is_closed (run_ops ops h) = is_closed h"
proof (induction ops arbitrary: h)
  case Nil
  show ?case by simp
next
  case (Cons x xs)
  show ?case by (cases x) (simp_all add: Cons.IH)
qed








lemma peer_peer [simp]: "peer (peer c) = c"
  by (cases c rule: peer.cases) simp_all

lemma wire_roundtrip:
  "fst (conn_Read r (conn_Write (peer r) bs wr)) = wr r @ bs"
  by (simp add: conn_Read_def conn_Write_def)

lemma dials_open:
  "\<not> is_closed h \<Longrightarrow>
     fst (dials args h)
       = map (\<lambda>n. (Some (PipeEnd n WriteSide), None)) [pipes h ..< pipes h + length args]
   \<and> senders (snd (dials args h))
       = senders h @ map (\<lambda>n. PipeEnd n ReadSide) [pipes h ..< pipes h + length args]
   \<and> \<not> is_closed (snd (dials args h))"
proof (induction args arbitrary: h)
  case Nil
  then show ?case by simp
next
  case (Cons a as)
  obtain raddr timeout where a: "a = (raddr, timeout)" by (cases a)
  let ?h1 = "snd (Dial raddr timeout h)"
  from Cons.prems have open1: "\<not> is_closed ?h1" by simp
  from Cons.prems have p1: "pipes ?h1 = Suc (pipes h)"
    and s1: "senders ?h1 = senders h @ [PipeEnd (pipes h) ReadSide]"
    and r1: "fst (Dial raddr timeout h) = (Some (PipeEnd (pipes h) WriteSide), None)"
    by (simp_all add: Dial_open)
  from Cons.IH [OF open1] p1 s1 r1 show ?case
    unfolding a by (simp add: split_beta upt_conv_Cons del: upt_Suc)
qed

lemma Accept_open_nonempty:
  assumes "\<not> is_closed h" "senders h \<noteq> []"
  shows "\<exists>c. fst (Accept pick h) = Returns (Some c, None)
          \<and> mset (senders h) = add_mset c (mset (senders (snd (Accept pick h))))
          \<and> \<not> is_closed (snd (Accept pick h))"
proof -
  let ?i = "pick mod length (senders h)"
  from assms have i: "?i < length (senders h)" by simp
  have "senders h = take ?i (senders h) @ senders h ! ?i # drop (Suc ?i) (senders h)"
    using i by (rule id_take_nth_drop)
  then have "mset (senders h)
      = mset (take ?i (senders h) @ senders h ! ?i # drop (Suc ?i) (senders h))"
    by simp
  then have "mset (senders h)
      = add_mset (senders h ! ?i) (mset (take ?i (senders h) @ drop (Suc ?i) (senders h)))"
    by simp
  with assms show ?thesis by (simp add: Accept_def Let_def)
qed

lemma accepts_open:
  "\<not> is_closed h \<Longrightarrow> length picks \<le> length (senders h) \<Longrightarrow>
     \<exists>cs. fst (accepts picks h) = map (\<lambda>c. Returns (Some c, None)) cs
        \<and> mset (senders h) = mset cs + mset (senders (snd (accepts picks h)))
        \<and> \<not> is_closed (snd (accepts picks h))"
proof (induction picks arbitrary: h)
  case Nil
  then show ?case by simp
next
  case (Cons p ps)
  from Cons.prems have ne: "senders h \<noteq> []" by auto
  from Accept_open_nonempty [OF Cons.prems(1) ne, of p]
  obtain c where c: "fst (Accept p h) = Returns (Some c, None)"
    and m: "mset (senders h) = add_mset c (mset (senders (snd (Accept p h))))"
    and o: "\<not> is_closed (snd (Accept p h))" by blast
  from m have "length (senders h) = Suc (length (senders (snd (Accept p h))))"
    by (metis size_mset size_add_mset)
  with Cons.prems have le: "length ps \<le> length (senders (snd (Accept p h)))" by simp
  from Cons.IH [OF o le] obtain cs where
    cs: "fst (accepts ps (snd (Accept p h))) = map (\<lambda>c. Returns (Some c, None)) cs"
    and ms: "mset (senders (snd (Accept p h)))
       = mset cs + mset (senders (snd (accepts ps (snd (Accept p h)))))"
    and os: "\<not> is_closed (snd (accepts ps (snd (Accept p h))))" by blast
  have "fst (accepts (p # ps) h) = map (\<lambda>c. Returns (Some c, None)) (c # cs)"
    using c cs by (simp add: split_beta)
  moreover have "mset (senders h) = mset (c # cs) + mset (senders (snd (accepts (p # ps) h)))"
    using m ms by (simp add: split_beta)
  moreover have "\<not> is_closed (snd (accepts (p # ps) h))"
    using os by (simp add: split_beta)
  ultimately show ?case by blast
qed

text \<open>
  C2. On an open bridge with no dial pending, after N calls of \<open>Dial\<close> the next N calls
  of \<open>Accept\<close> all return a stream, whatever the scheduler picks; the accepted streams
  are pairwise different, and taking the peer of each gives exactly the streams the
  dials returned, each once. A further \<open>Accept\<close> blocks: no dial is accepted twice.
  What is written on either end of such a pair is what the other end reads.
\<close>

theorem dials_matched_by_accepts:
  assumes "\<not> is_closed h" and "senders h = []" and "length picks = length args"
  shows "\<exists>ws rs.
      fst (dials args h) = map (\<lambda>w. (Some w, None)) ws
    \<and> fst (accepts picks (snd (dials args h))) = map (\<lambda>r. Returns (Some r, None)) rs
    \<and> length ws = length args \<and> length rs = length args
    \<and> distinct ws \<and> distinct rs
    \<and> mset (map peer rs) = mset ws
    \<and> fst (Accept pick (snd (accepts picks (snd (dials args h))))) = Blocks
    \<and> (\<forall>r \<in> set rs. \<forall>bs wr.
          fst (conn_Read r (conn_Write (peer r) bs wr)) = wr r @ bs
        \<and> fst (conn_Read (peer r) (conn_Write r bs wr)) = wr (peer r) @ bs)"
proof -
  let ?ids = "[pipes h ..< pipes h + length args]"
  let ?ws = "map (\<lambda>n. PipeEnd n WriteSide) ?ids"
  let ?h1 = "snd (dials args h)"
  from dials_open [OF assms(1), of args] assms(2)
  have d: "fst (dials args h) = map (\<lambda>w. (Some w, None)) ?ws"
    and s: "senders ?h1 = map (\<lambda>n. PipeEnd n ReadSide) ?ids"
    and o: "\<not> is_closed ?h1"
    by (simp_all add: comp_def)
  from s assms(3) have le: "length picks \<le> length (senders ?h1)" by simp
  from accepts_open [OF o le] obtain rs where
    a: "fst (accepts picks ?h1) = map (\<lambda>r. Returns (Some r, None)) rs"
    and m: "mset (senders ?h1) = mset rs + mset (senders (snd (accepts picks ?h1)))"
    and o2: "\<not> is_closed (snd (accepts picks ?h1))" by blast
  from a have "length (fst (accepts picks ?h1)) = length rs" by simp
  moreover have "length (fst (accepts picks h')) = length picks" for h'
    by (induction picks arbitrary: h') (simp_all add: split_beta)
  ultimately have lrs: "length rs = length picks" by simp
  from m have "length (senders ?h1) = length rs + length (senders (snd (accepts picks ?h1)))"
    by (metis size_mset size_union)
  with s lrs assms(3) have empty: "senders (snd (accepts picks ?h1)) = []" by simp
  with m s have mrs: "mset rs = mset (map (\<lambda>n. PipeEnd n ReadSide) ?ids)" by simp
  have dr: "distinct (map (\<lambda>n. PipeEnd n ReadSide) ?ids)"
    by (simp add: distinct_map inj_on_def)
  with mrs have drs: "distinct rs" by (metis mset_eq_imp_distinct_iff)
  have dws: "distinct ?ws" by (simp add: distinct_map inj_on_def)
  have "mset (map peer rs) = image_mset peer (mset rs)" by simp
  also have "\<dots> = image_mset peer (mset (map (\<lambda>n. PipeEnd n ReadSide) ?ids))"
    by (simp only: mrs)
  also have "\<dots> = mset ?ws" by (simp add: comp_def multiset.map_comp)
  finally have pr: "mset (map peer rs) = mset ?ws" .
  from o2 empty have blk: "fst (Accept pick (snd (accepts picks ?h1))) = Blocks"
    by (simp add: Accept_def)
  have wire: "\<forall>r \<in> set rs. \<forall>bs wr.
          fst (conn_Read r (conn_Write (peer r) bs wr)) = wr r @ bs
        \<and> fst (conn_Read (peer r) (conn_Write r bs wr)) = wr (peer r) @ bs"
    by (simp add: conn_Read_def conn_Write_def)
  from d a lrs assms(3) dws drs pr blk wire show ?thesis
    by (intro exI [of _ ?ws] exI [of _ rs]) simp
qed

theorem dials_matched_by_accepts_witness:
  "\<not> is_closed (new_heap ''mock'') \<and> senders (new_heap ''mock'') = []
   \<and> length [1, 0 :: nat] = length [(''mock'', 0 :: int), (''mock'', 30)]
   \<and> fst (accepts [1, 0] (snd (dials [(''mock'', 0), (''mock'', 30)] (new_heap ''mock''))))
       = [Returns (Some (PipeEnd 1 ReadSide), None), Returns (Some (PipeEnd 0 ReadSide), None)]
   \<and> (\<exists>ws rs.
        fst (dials [(''mock'', 0), (''mock'', 30)] (new_heap ''mock''))
          = map (\<lambda>w. (Some w, None)) ws
      \<and> fst (accepts [1, 0] (snd (dials [(''mock'', 0), (''mock'', 30)] (new_heap ''mock''))))
          = map (\<lambda>r. Returns (Some r, None)) rs
      \<and> length ws = length [(''mock'', 0 :: int), (''mock'', 30)]
      \<and> length rs = length [(''mock'', 0 :: int), (''mock'', 30)]
      \<and> distinct ws \<and> distinct rs
      \<and> mset (map peer rs) = mset ws
      \<and> fst (Accept 7 (snd (accepts [1, 0]
            (snd (dials [(''mock'', 0), (''mock'', 30)] (new_heap ''mock'')))))) = Blocks
      \<and> (\<forall>r \<in> set rs. \<forall>bs wr.
            fst (conn_Read r (conn_Write (peer r) bs wr)) = wr r @ bs
          \<and> fst (conn_Read (peer r) (conn_Write r bs wr)) = wr (peer r) @ bs))"
proof -
  have o: "\<not> is_closed (new_heap ''mock'')"
    by (simp add: is_closed_def new_heap_def newPipeConn_def)
  have s: "senders (new_heap ''mock'') = []"
    by (simp add: senders_def new_heap_def newPipeConn_def)
  have l: "length [1, 0 :: nat] = length [(''mock'', 0 :: int), (''mock'', 30)]"
    by simp
  have p: "pipes (new_heap ''mock'') = 0"
    by (simp add: new_heap_def)
  have d1: "senders (snd (dials [(''mock'', 0), (''mock'', 30)] (new_heap ''mock'')))
      = [PipeEnd 0 ReadSide, PipeEnd 1 ReadSide]"
    using o s p by (simp add: Dial_open split_beta)
  have d2: "\<not> is_closed (snd (dials [(''mock'', 0), (''mock'', 30)] (new_heap ''mock'')))"
    using o by (simp add: split_beta)
  have e: "fst (accepts [1, 0] (snd (dials [(''mock'', 0), (''mock'', 30)] (new_heap ''mock''))))
       = [Returns (Some (PipeEnd 1 ReadSide), None), Returns (Some (PipeEnd 0 ReadSide), None)]"
    using d1 d2 by (simp add: Accept_def Let_def split_beta)
  note t = dials_matched_by_accepts [OF o s l, of 7]
  show ?thesis
    by (rule conjI [OF o conjI [OF s conjI [OF l conjI [OF e t]]]])
qed

section \<open>Properties of the registry and of \<open>New\<close>\<close>

lemma Init_done: "initOnce g \<Longrightarrow> Init env g = (None, g)"
  by (simp add: Init_def)

lemma initOnce_Init: "initOnce (snd (Init env g))"
  by (simp add: Init_def split_beta)

text \<open>
  C3 at the failing input. With \<open>CSI_PLUGINS=/missing.so\<close> the first \<open>Init\<close> runs the
  discovery, which fails, and returns its error; the second \<open>Init\<close> does not run it
  again and returns nil.
\<close>

theorem Init_second_call_returns_nil:
  "fst (Init missing_env new_package) = Some (Err ''plugin.Open: /missing.so'')
   \<and> fst (Init missing_env (snd (Init missing_env new_package))) = None"
  by (simp add: Init_def loadSharedObjects_def missing_env_def new_package_def
      plain_csv_Read_def)

text \<open>
  C9. When the reader finds no module location in \<open>CSI_PLUGINS\<close> (no record, and no
  error but the end of input), the discovery returns nil and registers nothing, and so
  does \<open>Init\<close>, whether it runs the discovery or not.
\<close>

theorem Init_without_plugins:
  assumes "csv_Read env (os_Getenv env ''CSI_PLUGINS'') = ([], err)"
    and "err = None \<or> err = Some io_EOF"
  shows "loadSharedObjects env ctors = (None, ctors)
       \<and> fst (Init env g) = None
       \<and> endpointCtors (snd (Init env g)) = endpointCtors g"
proof -
  from assms have l: "loadSharedObjects env cs = (None, cs)" for cs
    by (auto simp add: loadSharedObjects_def)
  then show ?thesis by (simp add: Init_def)
qed

theorem Init_without_plugins_witness:
  "csv_Read unset_env (os_Getenv unset_env ''CSI_PLUGINS'') = ([], Some io_EOF)
   \<and> loadSharedObjects unset_env Map.empty = (None, Map.empty)
   \<and> fst (Init unset_env new_package) = None
   \<and> endpointCtors (snd (Init unset_env new_package)) = endpointCtors new_package"
proof -
  have r: "csv_Read unset_env (os_Getenv unset_env ''CSI_PLUGINS'') = ([], Some io_EOF)"
    by (simp add: unset_env_def plain_csv_Read_def)
  have e: "Some io_EOF = None \<or> Some io_EOF = Some io_EOF" by simp
  note t = Init_without_plugins [OF r e, of Map.empty new_package]
  show ?thesis by (rule conjI [OF r t])
qed









section \<open>Properties of the facade\<close>

lemma dial_unfold:
  "dialController g e ctx w =
     (case DialContext g ctx (ep_name e) [WithInsecure, WithDialer (ep_conn e)] w of
        (Inl err, w1) \<Rightarrow> (Inl err, w1) | (Inr c, w1) \<Rightarrow> (Inr (ControllerClient c), w1))"
  "dialIdentity g e ctx w =
     (case DialContext g ctx (ep_name e) [WithInsecure, WithDialer (ep_conn e)] w of
        (Inl err, w1) \<Rightarrow> (Inl err, w1) | (Inr c, w1) \<Rightarrow> (Inr (IdentityClient c), w1))"
  "dialNode g e ctx w =
     (case DialContext g ctx (ep_name e) [WithInsecure, WithDialer (ep_conn e)] w of
        (Inl err, w1) \<Rightarrow> (Inl err, w1) | (Inr c, w1) \<Rightarrow> (Inr (NodeClient c), w1))"
  by (simp_all add: dialController_def dialIdentity_def dialNode_def dial_def)

lemma endpoint_rpc_dial_fails:
  assumes "DialContext g ctx (ep_name e) [WithInsecure, WithDialer (ep_conn e)] w = (Inl err, w1)"
  shows "endpoint_rpc g e m ctx req w = ((None, Some err), w1)"
  using assms by (cases m) (simp_all add: dial_unfold)

lemma endpoint_rpc_dial_succeeds:
  assumes "DialContext g ctx (ep_name e) [WithInsecure, WithDialer (ep_conn e)] w = (Inr cc, w1)"
  shows "endpoint_rpc g e m ctx req w = Invoke g (client_of (owning_group m) cc) m ctx req w1"
  using assms by (cases m) (simp_all add: dial_unfold owning_group_def)

text \<open>
  C1. Every forwarding method of the facade calls \<open>grpc.DialContext\<close> once, with the
  endpoint's name and the dialer of its own bridge. When that fails with \<open>err\<close> the
  method returns no response and \<open>err\<close>, and nothing else happens. Otherwise it makes
  the client of the group that owns the method on the connection it got, calls the
  method of the same name once with the request it was given, and returns what that
  call returns.
\<close>

theorem endpoint_rpc_forwards:
  "(DialContext g ctx (ep_name e) [WithInsecure, WithDialer (ep_conn e)] w = (Inl err, w1)
      \<longrightarrow> endpoint_rpc g e m ctx req w = ((None, Some err), w1))
   \<and> (DialContext g ctx (ep_name e) [WithInsecure, WithDialer (ep_conn e)] w = (Inr cc, w1)
      \<longrightarrow> endpoint_rpc g e m ctx req w
            = Invoke g (client_of (owning_group m) cc) m ctx req w1)"
  by (simp add: endpoint_rpc_dial_fails endpoint_rpc_dial_succeeds)

theorem endpoint_rpc_forwards_witness:
  "DialContext failing_grpc 0 (ep_name failing_facade)
       [WithInsecure, WithDialer (ep_conn failing_facade)] 0 = (Inl (Err ''dial failed''), 1)
   \<and> endpoint_rpc failing_grpc failing_facade ListVolumes 0 ''StartingToken=1'' 0
       = ((None, Some (Err ''dial failed'')), 1)
   \<and> DialContext echo_grpc 0 (ep_name failing_facade)
       [WithInsecure, WithDialer (ep_conn failing_facade)] 0 = (Inr 7, 1)
   \<and> endpoint_rpc echo_grpc failing_facade ListVolumes 0 ''StartingToken=1'' 0
       = ((Some ''StartingToken=1'', None), 2)"
proof -
  have d1: "DialContext failing_grpc 0 (ep_name failing_facade)
       [WithInsecure, WithDialer (ep_conn failing_facade)] 0 = (Inl (Err ''dial failed''), 1)"
    by (simp add: failing_grpc_def)
  have d2: "DialContext echo_grpc 0 (ep_name failing_facade)
       [WithInsecure, WithDialer (ep_conn failing_facade)] 0 = (Inr 7, 1)"
    by (simp add: echo_grpc_def)
  from endpoint_rpc_forwards [of failing_grpc 0 failing_facade 0 "Err ''dial failed''" 1
      ListVolumes "''StartingToken=1''" 0] d1
  have r1: "endpoint_rpc failing_grpc failing_facade ListVolumes 0 ''StartingToken=1'' 0
       = ((None, Some (Err ''dial failed'')), 1)"
    by blast
  from endpoint_rpc_forwards [of echo_grpc 0 failing_facade 0 "Err ''x''" 1
      ListVolumes "''StartingToken=1''" 7] d2
  have "endpoint_rpc echo_grpc failing_facade ListVolumes 0 ''StartingToken=1'' 0
       = Invoke echo_grpc (client_of (owning_group ListVolumes) 7) ListVolumes 0
           ''StartingToken=1'' 1"
    by blast
  then have r2: "endpoint_rpc echo_grpc failing_facade ListVolumes 0 ''StartingToken=1'' 0
       = ((Some ''StartingToken=1'', None), 2)"
    by (simp add: echo_grpc_def)
  from d1 r1 d2 r2 show ?thesis by blast
qed

text \<open>
  C4 at the failing input. The plug-in's \<open>Shutdown\<close> returns an error; the facade's
  \<open>Shutdown\<close> closes the bridge after it and returns nil. \<open>Init\<close> of the same facade
  returns what the plug-in's \<open>Init\<close> returns.
\<close>

theorem endpoint_Shutdown_returns_nil:
  "fst (endp_Shutdown (ep_endp failing_facade) 0 mock_world) = Some (Err ''shutdown failed'')
   \<and> fst (endpoint_Shutdown failing_facade 0 mock_world) = Returns None
   \<and> is_closed (net (snd (endpoint_Shutdown failing_facade 0 mock_world)))
   \<and> endpoint_Init failing_facade 0 mock_world = endp_Init (ep_endp failing_facade) 0 mock_world"
  by (simp add: endpoint_Shutdown_def endpoint_Init_def failing_facade_def failing_endp_def
      mock_world_def Close_def is_closed_def new_heap_def newPipeConn_def)

end
